theory Spec2Isabelle
  imports Complex_Main
begin

section \<open>JavaScript values\<close>

text \<open>
  The pages exchange JSON-shaped data: the record decoded by \<^verbatim>\<open>res.json()\<close>, the props
  object a component is called with, the object literal handed to \<^verbatim>\<open>res.json(...)\<close>.
  A number is an IEEE double; only its being zero or NaN matters here (truthiness), so a
  finite non-zero double is kept as the rational it denotes and negative zero, the
  infinities and NaN are separate values. An object is the list of its own properties.
\<close>

datatype js_number = NaN | PosInfinity | NegInfinity | NegZero | Finite rat

datatype js_value =
    Undefined
  | Null
  | Bool bool
  | Num js_number
  | Str string
  | Arr "js_value list"
  | Obj "(string \<times> js_value) list"

datatype js_error = TypeError | SyntaxError | DOMException string

text \<open>
  \<^verbatim>\<open>!post\<close> is true exactly for the falsy values: \<^verbatim>\<open>undefined\<close>, \<^verbatim>\<open>null\<close>, \<^verbatim>\<open>false\<close>,
  \<^verbatim>\<open>0\<close>, \<^verbatim>\<open>-0\<close>, \<^verbatim>\<open>NaN\<close> and the empty string. Every object and every array is truthy,
  the empty ones too.
\<close>

fun truthy :: "js_value \<Rightarrow> bool" where
  "truthy Undefined = False"
| "truthy Null = False"
| "truthy (Bool b) = b"
| "truthy (Num n) = (n \<noteq> NaN \<and> n \<noteq> NegZero \<and> n \<noteq> Finite 0)"
| "truthy (Str s) = (s \<noteq> [])"
| "truthy (Arr xs) = True"
| "truthy (Obj fs) = True"

text \<open>
  Reading a property \<^verbatim>\<open>v.k\<close>. On \<^verbatim>\<open>undefined\<close> and \<^verbatim>\<open>null\<close> the read throws a
  TypeError. On an object it is the own property of that name, and \<^verbatim>\<open>undefined\<close> when
  there is none. The keys the pages read (\<^verbatim>\<open>post\<close>, \<^verbatim>\<open>title\<close>, \<^verbatim>\<open>body\<close>) are defined by
  no built-in prototype, so on a boolean, a number, a string or an array the read gives
  \<^verbatim>\<open>undefined\<close>; \<open>own_prop\<close> is meant for such keys only (not for \<^verbatim>\<open>length\<close> or an index).
\<close>

fun own_prop :: "js_value \<Rightarrow> string \<Rightarrow> js_value" where
  "own_prop (Obj fs) k = (case map_of fs k of Some v \<Rightarrow> v | None \<Rightarrow> Undefined)"
| "own_prop v k = Undefined"

definition get_prop :: "js_value \<Rightarrow> string \<Rightarrow> js_error + js_value" where
  "get_prop v k = (if v = Undefined \<or> v = Null then Inl TypeError else Inr (own_prop v k))"

section \<open>React elements\<close>

text \<open>
  A JSX expression \<^verbatim>\<open><tag a={x}>children</tag>\<close> builds an element: its type, its
  attributes and its children. A child is either another element or a JavaScript value
  placed there as it is (literal text is a string value, \<^verbatim>\<open>{post.title}\<close> is whatever
  the property holds). Lines of JSX that hold only white space and a line break give no child.
\<close>

datatype react_node =
    Child js_value
  | Element string "(string \<times> js_value) list" "react_node list"

text \<open>The content of a node: the values placed in it, in document order.\<close>

fun leaves :: "react_node \<Rightarrow> js_value list" where
  "leaves (Child v) = [v]"
| "leaves (Element tag attrs cs) = concat (map leaves cs)"

section \<open>The dynamic content page: \<^verbatim>\<open>pages/posts/[id].js\<close>\<close>

text \<open>
  \<^verbatim>\<open>Post({ post })\<close> takes the props object apart (which throws on \<^verbatim>\<open>undefined\<close> and
  \<^verbatim>\<open>null\<close>), returns the placeholder when \<^verbatim>\<open>post\<close> is falsy, and otherwise the element
  with the two property reads as children.
\<close>

definition Post :: "js_value \<Rightarrow> js_error + react_node" where
  "Post props =
     (case get_prop props ''post'' of
        Inl e \<Rightarrow> Inl e
      | Inr post \<Rightarrow>
          if \<not> truthy post then
            Inr (Element ''div'' [] [Child (Str ''Loading...'')])
          else
            (case get_prop post ''title'' of
               Inl e \<Rightarrow> Inl e
             | Inr title \<Rightarrow>
                 (case get_prop post ''body'' of
                    Inl e \<Rightarrow> Inl e
                  | Inr body \<Rightarrow>
                      Inr (Element ''div'' []
                             [Element ''h1'' [] [Child title],
                              Element ''p'' [] [Child body]]))))"

section \<open>Asynchronous functions and the platform\<close>

text \<open>
  \<^verbatim>\<open>getServerSideProps\<close> is an \<^verbatim>\<open>async\<close> function: it runs up to an \<^verbatim>\<open>await\<close>, is
  suspended there, and goes on with the outcome of the awaited promise, which is a value
  or a rejection. Such a function is the tree of its suspension points. The two
  operations awaited in this repository are \<^verbatim>\<open>fetch(url)\<close>, which sends a request and
  settles with the response or with an error, and \<^verbatim>\<open>res.json()\<close>, which reads the body
  of a response already received and decodes it, or rejects when the body cannot be read
  or is not JSON. An \<^verbatim>\<open>await\<close> of a rejected promise throws; what the function does with
  it is written in its continuation.
\<close>

record http_request =
  http_method :: string
  url :: string

record http_response =
  http_status :: nat
  raw_body :: string

datatype 'a async =
    Resolve 'a
  | Reject js_error
  | AwaitFetch http_request "js_error + http_response \<Rightarrow> 'a async"
  | AwaitJson http_response "js_error + js_value \<Rightarrow> 'a async"

text \<open>\<^verbatim>\<open>fetch\<close> called with a URL and no options sends a GET request.\<close>

definition fetch :: "string \<Rightarrow> (js_error + http_response \<Rightarrow> 'a async) \<Rightarrow> 'a async" where
  "fetch u k = AwaitFetch \<lparr>http_method = ''GET'', url = u\<rparr> k"

text \<open>
  The platform answers the two operations: the remote service and the connection decide
  what a request yields, and what reading and decoding a response's body yields. Running
  an asynchronous function against a platform gives the way its promise settles and, in
  order, the operations it performed.
\<close>

record platform =
  fetch_result :: "http_request \<Rightarrow> js_error + http_response"
  json_result :: "http_response \<Rightarrow> js_error + js_value"

datatype event = Fetched http_request | BodyRead http_response

primrec run :: "platform \<Rightarrow> 'a async \<Rightarrow> event list \<Rightarrow> (js_error + 'a) \<times> event list" where
  "run pf (Resolve v) tr = (Inr v, tr)"
| "run pf (Reject e) tr = (Inl e, tr)"
| "run pf (AwaitFetch req k) tr = run pf (k (fetch_result pf req)) (tr @ [Fetched req])"
| "run pf (AwaitJson res k) tr = run pf (k (json_result pf res)) (tr @ [BodyRead res])"

fun requests :: "event list \<Rightarrow> http_request list" where
  "requests [] = []"
| "requests (Fetched r # es) = r # requests es"
| "requests (BodyRead res # es) = requests es"

fun settled :: "'a async \<Rightarrow> bool" where
  "settled (Resolve v) = True"
| "settled (Reject e) = True"
| "settled (AwaitFetch req k) = False"
| "settled (AwaitJson res k) = False"

text \<open>
  The number of times a run is suspended: one for each \<^verbatim>\<open>await\<close> it reaches, whether
  the awaited operation is the request or the read of a body.
\<close>

primrec awaits :: "platform \<Rightarrow> 'a async \<Rightarrow> nat" where
  "awaits pf (Resolve v) = 0"
| "awaits pf (Reject e) = 0"
| "awaits pf (AwaitFetch req k) = Suc (awaits pf (k (fetch_result pf req)))"
| "awaits pf (AwaitJson res k) = Suc (awaits pf (k (json_result pf res)))"

subsection \<open>\<^verbatim>\<open>getServerSideProps\<close> of \<^verbatim>\<open>pages/posts/[id].js\<close>\<close>

text \<open>
  The router hands the function the segment of the path matched by \<^verbatim>\<open>[id]\<close>, a string,
  as \<^verbatim>\<open>params.id\<close>. The template literal appends it to the fixed address. Neither
  \<^verbatim>\<open>await\<close> stands in a \<^verbatim>\<open>try\<close>, so a rejection at either leaves the function as its
  own rejection.
\<close>

record route_params =
  id' :: string

record ssr_context =
  params :: route_params

definition getServerSideProps :: "ssr_context \<Rightarrow> js_value async" where
  "getServerSideProps ctx =
     fetch (''https://jsonplaceholder.typicode.com/posts/'' @ id' (params ctx))
       (\<lambda>r. case r of
              Inl e \<Rightarrow> Reject e
            | Inr res \<Rightarrow>
                AwaitJson res
                  (\<lambda>j. case j of
                         Inl e \<Rightarrow> Reject e
                       | Inr post \<Rightarrow> Resolve (Obj [(''props'', Obj [(''post'', post)])])))"

section \<open>The static pages\<close>

text \<open>
  \<^verbatim>\<open>About\<close>, \<^verbatim>\<open>Home\<close> and \<^verbatim>\<open>ImageOptimization\<close> declare no parameter; called with the
  props object they ignore it. \<^verbatim>\<open>Home\<close> refers to \<^verbatim>\<open>myImage\<close>, the value the bundler
  binds to the imported picture; it is outside the repository and is taken as a
  parameter. \<^verbatim>\<open>getStaticProps\<close> of the About page is asynchronous and awaits nothing.
\<close>

definition About :: "js_value \<Rightarrow> react_node" where
  "About props =
     Element ''div'' []
       [Element ''h1'' [] [Child (Str ''About Us'')],
        Element ''p'' [] [Child (Str ''This page is statically generated.'')]]"

definition getStaticProps :: "js_value \<Rightarrow> js_value async" where
  "getStaticProps ctx = Resolve (Obj [(''props'', Obj [])])"

definition Home :: "js_value \<Rightarrow> js_value \<Rightarrow> react_node" where
  "Home myImage props =
     Element ''div'' []
       [Element ''h1'' [] [Child (Str ''Welcome to Next.js!'')],
        Element ''p'' [] [Child (Str ''This is the home page.'')],
        Element ''Image''
          [(''src'', myImage), (''alt'', Str ''Next.js Logo''),
           (''width'', Num (Finite 200)), (''height'', Num (Finite 200))] []]"

definition ImageOptimization :: "js_value \<Rightarrow> react_node" where
  "ImageOptimization props =
     Element ''div'' []
       [Element ''h1'' [] [Child (Str ''Next.js Image Optimization'')],
        Element ''p'' []
          [Child (Str ''This page demonstrates optimized image loading with Next.js.'')],
        Element ''Image''
          [(''src'', Str ''/nextjs.png''), (''alt'', Str ''Optimized Image''),
           (''width'', Num (Finite 400)), (''height'', Num (Finite 300)),
           (''priority'', Bool True)] []]"

section \<open>The API route: \<^verbatim>\<open>pages/api/hello.js\<close>\<close>

text \<open>
  The handler is called with the incoming request and the response under construction.
  \<^verbatim>\<open>res.status(code)\<close> sets the status code and returns the response, so that calls
  chain; \<^verbatim>\<open>res.json(v)\<close> sends \<open>v\<close> as the JSON body. The handler itself returns
  nothing: what it does is the response it leaves behind.
\<close>

record api_request =
  req_method :: string
  req_headers :: "(string \<times> string) list"
  req_query :: "(string \<times> string) list"
  req_body :: js_value

record api_response =
  statusCode :: nat
  sent :: "js_value option"

definition status :: "api_response \<Rightarrow> nat \<Rightarrow> api_response" where
  "status res code = res\<lparr>statusCode := code\<rparr>"

definition json :: "api_response \<Rightarrow> js_value \<Rightarrow> api_response" where
  "json res v = res\<lparr>sent := Some v\<rparr>"

definition handler :: "api_request \<Rightarrow> api_response \<Rightarrow> api_response" where
  "handler req res = json (status res 200) (Obj [(''text'', Str ''Hello from Next.js API!'')])"

section \<open>Properties of the Post component\<close>

lemma truthy_not_nullish: "truthy v \<Longrightarrow> v \<noteq> Undefined \<and> v \<noteq> Null"
  by (cases v) simp_all

lemma get_prop_truthy: "truthy v \<Longrightarrow> get_prop v k = Inr (own_prop v k)"
  using truthy_not_nullish [of v] by (simp add: get_prop_def)

lemma Post_falsy:
  "get_prop props ''post'' = Inr post \<Longrightarrow> \<not> truthy post \<Longrightarrow>
   Post props = Inr (Element ''div'' [] [Child (Str ''Loading...'')])"
  by (simp add: Post_def)

lemma Post_truthy:
  "get_prop props ''post'' = Inr post \<Longrightarrow> truthy post \<Longrightarrow>
   Post props =
     Inr (Element ''div'' []
            [Element ''h1'' [] [Child (own_prop post ''title'')],
             Element ''p'' [] [Child (own_prop post ''body'')]])"
  by (simp add: Post_def get_prop_truthy)

text \<open>
  C1. A post record that has a \<open>title\<close> and a \<open>body\<close> property is an object, hence truthy.
  Passed to the component as the \<open>post\<close> prop, it is rendered as a \<open>div\<close> holding an
  \<open>h1\<close> whose only child is the title value and a \<open>p\<close> whose only child is the body
  value, both exactly as the record holds them (for a text field, the string itself);
  the output has no other content.
\<close>

theorem Post_renders_title_and_body:
  assumes "get_prop props ''post'' = Inr (Obj fs)"
    and "map_of fs ''title'' = Some t"
    and "map_of fs ''body'' = Some b"
  shows "Post props =
           Inr (Element ''div'' []
                  [Element ''h1'' [] [Child t], Element ''p'' [] [Child b]])
       \<and> map_sum id leaves (Post props) = Inr [t, b]"
proof -
  have "truthy (Obj fs)" by simp
  from Post_truthy [OF assms(1) this] assms(2,3)
  have "Post props =
          Inr (Element ''div'' []
                 [Element ''h1'' [] [Child t], Element ''p'' [] [Child b]])"
    by simp
  then show ?thesis by simp
qed

theorem Post_renders_title_and_body_witness:
  "Post (Obj [(''post'', Obj [(''userId'', Num (Finite 1)), (''id'', Num (Finite 1)),
                              (''title'', Str ''sunt aut facere''),
                              (''body'', Str ''quia et suscipit'')])]) =
     Inr (Element ''div'' []
            [Element ''h1'' [] [Child (Str ''sunt aut facere'')],
             Element ''p'' [] [Child (Str ''quia et suscipit'')]])
 \<and> map_sum id leaves
       (Post (Obj [(''post'', Obj [(''userId'', Num (Finite 1)), (''id'', Num (Finite 1)),
                                   (''title'', Str ''sunt aut facere''),
                                   (''body'', Str ''quia et suscipit'')])])) =
     Inr [Str ''sunt aut facere'', Str ''quia et suscipit'']"
  using Post_renders_title_and_body
    [of "Obj [(''post'', Obj [(''userId'', Num (Finite 1)), (''id'', Num (Finite 1)),
                              (''title'', Str ''sunt aut facere''),
                              (''body'', Str ''quia et suscipit'')])]"
        "[(''userId'', Num (Finite 1)), (''id'', Num (Finite 1)),
          (''title'', Str ''sunt aut facere''), (''body'', Str ''quia et suscipit'')]"
        "Str ''sunt aut facere''" "Str ''quia et suscipit''"]
  by (simp add: get_prop_def)

text \<open>
  C2. Whenever the \<open>post\<close> prop is falsy (absent, \<^verbatim>\<open>null\<close>, \<^verbatim>\<open>false\<close>, a zero, NaN or the
  empty string), the component returns the placeholder: a \<open>div\<close> without attributes whose
  single child is the text \<open>Loading...\<close>; that text is the whole content of the output.
\<close>

theorem Post_placeholder_when_falsy:
  assumes "get_prop props ''post'' = Inr post" and "\<not> truthy post"
  shows "Post props = Inr (Element ''div'' [] [Child (Str ''Loading...'')])
       \<and> map_sum id leaves (Post props) = Inr [Str ''Loading...'']"
  using Post_falsy [OF assms] by simp

theorem Post_placeholder_when_falsy_witness:
  "Post (Obj []) = Inr (Element ''div'' [] [Child (Str ''Loading...'')]) \<and>
   Post (Obj [(''post'', Null)]) = Inr (Element ''div'' [] [Child (Str ''Loading...'')])"
  using Post_placeholder_when_falsy [of "Obj []" Undefined]
    Post_placeholder_when_falsy [of "Obj [(''post'', Null)]" Null]
  by (simp add: get_prop_def)

text \<open>
  C9. The placeholder is returned if and only if the \<open>post\<close> prop is falsy. A truthy
  value always takes the other branch, whatever its shape: the result is the element with
  the two property reads as children, and a property the value does not have reads as
  \<^verbatim>\<open>undefined\<close>. In particular the empty object gives an \<open>h1\<close> and a \<open>p\<close> with an
  \<^verbatim>\<open>undefined\<close> child each, not the placeholder.
\<close>

theorem Post_placeholder_iff_falsy:
  assumes "get_prop props ''post'' = Inr post"
  shows "(Post props = Inr (Element ''div'' [] [Child (Str ''Loading...'')])) = (\<not> truthy post)
       \<and> (truthy post \<longrightarrow>
            Post props =
              Inr (Element ''div'' []
                     [Element ''h1'' [] [Child (own_prop post ''title'')],
                      Element ''p'' [] [Child (own_prop post ''body'')]]))
       \<and> own_prop (Obj []) ''title'' = Undefined \<and> own_prop (Obj []) ''body'' = Undefined"
proof (cases "truthy post")
  case True
  from Post_truthy [OF assms True] True show ?thesis by simp
next
  case False
  from Post_falsy [OF assms False] False show ?thesis by simp
qed

theorem Post_placeholder_iff_falsy_witness:
  "Post (Obj [(''post'', Obj [])]) \<noteq> Inr (Element ''div'' [] [Child (Str ''Loading...'')]) \<and>
   Post (Obj [(''post'', Obj [])]) =
     Inr (Element ''div'' []
            [Element ''h1'' [] [Child Undefined], Element ''p'' [] [Child Undefined]])"
  using Post_placeholder_iff_falsy [of "Obj [(''post'', Obj [])]" "Obj []"]
  by (simp add: get_prop_def)

section \<open>Properties of \<^verbatim>\<open>getServerSideProps\<close>\<close>

lemma requests_append: "requests (xs @ ys) = requests xs @ requests ys"
  by (induction xs rule: requests.induct) simp_all

text \<open>
  One run of the function, case by case: the request is sent first; a failed request
  ends the run; otherwise the body of the response is read, and the run ends with the
  rejection or with the props object.
\<close>

lemma run_getServerSideProps:
  "run pf (getServerSideProps ctx) tr =
     (case fetch_result pf \<lparr>http_method = ''GET'',
        url = ''https://jsonplaceholder.typicode.com/posts/'' @ id' (params ctx)\<rparr> of
        Inl e \<Rightarrow> (Inl e, tr @ [Fetched \<lparr>http_method = ''GET'',
        url = ''https://jsonplaceholder.typicode.com/posts/'' @ id' (params ctx)\<rparr>])
      | Inr res \<Rightarrow>
          (case json_result pf res of
             Inl e \<Rightarrow> (Inl e, tr @ [Fetched \<lparr>http_method = ''GET'',
        url = ''https://jsonplaceholder.typicode.com/posts/'' @ id' (params ctx)\<rparr>, BodyRead res])
           | Inr post \<Rightarrow>
               (Inr (Obj [(''props'', Obj [(''post'', post)])]),
                tr @ [Fetched \<lparr>http_method = ''GET'',
        url = ''https://jsonplaceholder.typicode.com/posts/'' @ id' (params ctx)\<rparr>, BodyRead res])))"
  by (simp add: getServerSideProps_def fetch_def split: sum.splits)

text \<open>
  C3. For every \<open>id\<close> string, unchecked, and whatever the platform answers, a run of
  \<^verbatim>\<open>getServerSideProps\<close> sends exactly one request: a GET whose address is the fixed
  prefix \<^verbatim>\<open>https://jsonplaceholder.typicode.com/posts/\<close> followed by the \<open>id\<close> as it
  came.
\<close>

theorem getServerSideProps_one_GET:
  "requests (snd (run pf (getServerSideProps ctx) tr)) =
     requests tr @ [\<lparr>http_method = ''GET'',
        url = ''https://jsonplaceholder.typicode.com/posts/'' @ id' (params ctx)\<rparr>]"
  by (simp add: run_getServerSideProps requests_append split: sum.splits)

text \<open>
  C4. There is no handler in \<^verbatim>\<open>getServerSideProps\<close>: when the request fails, or when
  the response arrives and its body cannot be read or decoded, the function's promise
  is rejected with that very error. No value is returned in its place.
\<close>

theorem getServerSideProps_propagates_failure:
  assumes "fetch_result pf \<lparr>http_method = ''GET'',
        url = ''https://jsonplaceholder.typicode.com/posts/'' @ id' (params ctx)\<rparr> = Inl e
         \<or> (\<exists>res. fetch_result pf \<lparr>http_method = ''GET'',
        url = ''https://jsonplaceholder.typicode.com/posts/'' @ id' (params ctx)\<rparr> = Inr res \<and> json_result pf res = Inl e)"
  shows "fst (run pf (getServerSideProps ctx) tr) = Inl e"
  using assms by (auto simp add: run_getServerSideProps)

theorem getServerSideProps_propagates_failure_witness:
  "fst (run \<lparr>fetch_result = (\<lambda>r. Inl TypeError), json_result = (\<lambda>r. Inr Null)\<rparr>
          (getServerSideProps \<lparr>params = \<lparr>id' = ''1''\<rparr>\<rparr>) []) = Inl TypeError
 \<and> fst (run \<lparr>fetch_result = (\<lambda>r. Inr \<lparr>http_status = 500, raw_body = ''<html>''\<rparr>),
              json_result = (\<lambda>r. Inl SyntaxError)\<rparr>
          (getServerSideProps \<lparr>params = \<lparr>id' = ''1''\<rparr>\<rparr>) []) = Inl SyntaxError"
  using getServerSideProps_propagates_failure
      [of "\<lparr>fetch_result = (\<lambda>r. Inl TypeError), json_result = (\<lambda>r. Inr Null)\<rparr>"
          "\<lparr>params = \<lparr>id' = ''1''\<rparr>\<rparr>" TypeError "[]"]
    getServerSideProps_propagates_failure
      [of "\<lparr>fetch_result = (\<lambda>r. Inr \<lparr>http_status = 500, raw_body = ''<html>''\<rparr>),
            json_result = (\<lambda>r. Inl SyntaxError)\<rparr>"
          "\<lparr>params = \<lparr>id' = ''1''\<rparr>\<rparr>" SyntaxError "[]"]
  by simp

text \<open>
  C6. When the response arrives and its body decodes to \<open>post\<close>, the function returns
  the object whose only key is \<open>props\<close>, holding the object whose only key is \<open>post\<close>,
  holding the decoded value itself: nothing is added, removed or changed.
\<close>

theorem getServerSideProps_returns_decoded_post:
  assumes "fetch_result pf \<lparr>http_method = ''GET'',
        url = ''https://jsonplaceholder.typicode.com/posts/'' @ id' (params ctx)\<rparr> = Inr res"
    and "json_result pf res = Inr post"
  shows "fst (run pf (getServerSideProps ctx) tr) =
           Inr (Obj [(''props'', Obj [(''post'', post)])])"
  using assms by (simp add: run_getServerSideProps)

theorem getServerSideProps_returns_decoded_post_witness:
  "fst (run \<lparr>fetch_result = (\<lambda>r. Inr \<lparr>http_status = 200, raw_body = ''[true]''\<rparr>),
              json_result = (\<lambda>r. Inr (Arr [Bool True]))\<rparr>
          (getServerSideProps \<lparr>params = \<lparr>id' = ''1''\<rparr>\<rparr>) []) =
     Inr (Obj [(''props'', Obj [(''post'', Arr [Bool True])])])"
  using getServerSideProps_returns_decoded_post
      [of "\<lparr>fetch_result = (\<lambda>r. Inr \<lparr>http_status = 200, raw_body = ''[true]''\<rparr>),
            json_result = (\<lambda>r. Inr (Arr [Bool True]))\<rparr>"
          "\<lparr>params = \<lparr>id' = ''1''\<rparr>\<rparr>"
          "\<lparr>http_status = 200, raw_body = ''[true]''\<rparr>"
          "Arr [Bool True]" "[]"]
  by simp

text \<open>
  C8, as stated, fails. The function awaits twice: the request, and then
  \<^verbatim>\<open>res.json()\<close>, which reads the body of the response from the connection. On a
  platform that answers the request, a run is suspended two times, not at most once.
\<close>

theorem getServerSideProps_awaits_twice:
  "awaits \<lparr>fetch_result = (\<lambda>r. Inr \<lparr>http_status = 200, raw_body = ''[true]''\<rparr>),
            json_result = (\<lambda>r. Inr (Arr [Bool True]))\<rparr>
          (getServerSideProps \<lparr>params = \<lparr>id' = ''1''\<rparr>\<rparr>) = 2
 \<and> \<not> awaits \<lparr>fetch_result = (\<lambda>r. Inr \<lparr>http_status = 200, raw_body = ''[true]''\<rparr>),
              json_result = (\<lambda>r. Inr (Arr [Bool True]))\<rparr>
            (getServerSideProps \<lparr>params = \<lparr>id' = ''1''\<rparr>\<rparr>) \<le> 1
 \<and> snd (run \<lparr>fetch_result = (\<lambda>r. Inr \<lparr>http_status = 200, raw_body = ''[true]''\<rparr>),
              json_result = (\<lambda>r. Inr (Arr [Bool True]))\<rparr>
            (getServerSideProps \<lparr>params = \<lparr>id' = ''1''\<rparr>\<rparr>) []) =
     [Fetched \<lparr>http_method = ''GET'', url = ''https://jsonplaceholder.typicode.com/posts/1''\<rparr>,
      BodyRead \<lparr>http_status = 200, raw_body = ''[true]''\<rparr>]"
  by (simp add: getServerSideProps_def fetch_def)

text \<open>
  C8, amended. A run of \<^verbatim>\<open>getServerSideProps\<close> is unsettled until its request is
  answered. It is suspended once when the request fails and twice when a response comes,
  never more. The operations it performs are, in this order and with nothing between or
  after them, the one request and, if a response comes, the read of the body of that
  very response; so a run sends exactly one request, and its result comes after the
  operations it awaited.
\<close>

theorem getServerSideProps_one_request_two_awaits:
  "\<not> settled (getServerSideProps ctx)
 \<and> awaits pf (getServerSideProps ctx) =
     (case fetch_result pf \<lparr>http_method = ''GET'',
        url = ''https://jsonplaceholder.typicode.com/posts/'' @ id' (params ctx)\<rparr> of Inl e \<Rightarrow> 1 | Inr res \<Rightarrow> 2)
 \<and> awaits pf (getServerSideProps ctx) \<le> 2
 \<and> snd (run pf (getServerSideProps ctx) tr) =
     tr @ (case fetch_result pf \<lparr>http_method = ''GET'',
        url = ''https://jsonplaceholder.typicode.com/posts/'' @ id' (params ctx)\<rparr> of
             Inl e \<Rightarrow> [Fetched \<lparr>http_method = ''GET'',
        url = ''https://jsonplaceholder.typicode.com/posts/'' @ id' (params ctx)\<rparr>]
           | Inr res \<Rightarrow> [Fetched \<lparr>http_method = ''GET'',
        url = ''https://jsonplaceholder.typicode.com/posts/'' @ id' (params ctx)\<rparr>, BodyRead res])
 \<and> length (snd (run pf (getServerSideProps ctx) tr)) =
     length tr + awaits pf (getServerSideProps ctx)
 \<and> length (requests (snd (run pf (getServerSideProps ctx) tr))) =
     length (requests tr) + 1"
proof -
  have susp: "awaits pf (getServerSideProps ctx) =
      (case fetch_result pf \<lparr>http_method = ''GET'',
        url = ''https://jsonplaceholder.typicode.com/posts/'' @ id' (params ctx)\<rparr> of Inl e \<Rightarrow> 1 | Inr res \<Rightarrow> 2)"
    by (simp add: getServerSideProps_def fetch_def split: sum.splits)
  have unsettled: "\<not> settled (getServerSideProps ctx)"
    by (simp add: getServerSideProps_def fetch_def)
  have trace: "snd (run pf (getServerSideProps ctx) tr) =
     tr @ (case fetch_result pf \<lparr>http_method = ''GET'',
        url = ''https://jsonplaceholder.typicode.com/posts/'' @ id' (params ctx)\<rparr> of
             Inl e \<Rightarrow> [Fetched \<lparr>http_method = ''GET'',
        url = ''https://jsonplaceholder.typicode.com/posts/'' @ id' (params ctx)\<rparr>]
           | Inr res \<Rightarrow> [Fetched \<lparr>http_method = ''GET'',
        url = ''https://jsonplaceholder.typicode.com/posts/'' @ id' (params ctx)\<rparr>, BodyRead res])"
    by (simp add: run_getServerSideProps split: sum.splits)
  have bound: "awaits pf (getServerSideProps ctx) \<le> 2"
    unfolding susp by (simp split: sum.splits)
  have len: "length (snd (run pf (getServerSideProps ctx) tr)) =
     length tr + awaits pf (getServerSideProps ctx)"
    unfolding trace susp by (simp split: sum.splits)
  have reqs: "length (requests (snd (run pf (getServerSideProps ctx) tr))) =
     length (requests tr) + 1"
    unfolding trace by (simp add: requests_append split: sum.splits)
  from unsettled susp bound trace len reqs show ?thesis by blast
qed

section \<open>Properties of the static pages\<close>

text \<open>
  C7. The static pages give the same output at every call: \<^verbatim>\<open>About\<close>, \<^verbatim>\<open>Home\<close> (for
  the picture the bundler bound) and \<^verbatim>\<open>ImageOptimization\<close> do not depend on what they
  are called with, and \<^verbatim>\<open>getStaticProps\<close> returns the empty props on every platform
  without sending a request or reading a body.
\<close>

theorem static_pages_invariant:
  "About p1 = About p2
 \<and> Home myImage p1 = Home myImage p2
 \<and> ImageOptimization p1 = ImageOptimization p2
 \<and> run pf1 (getStaticProps c1) tr = (Inr (Obj [(''props'', Obj [])]), tr)
 \<and> fst (run pf1 (getStaticProps c1) tr1) = fst (run pf2 (getStaticProps c2) tr2)"
  by (simp add: About_def Home_def ImageOptimization_def getStaticProps_def)

section \<open>Properties of the API route\<close>

text \<open>
  C5. Whatever the request, the handler leaves the response with status code 200 and
  with the JSON body \<^verbatim>\<open>{"text":"Hello from Next.js API!"}\<close>, the object with the single
  key \<open>text\<close>.
\<close>

theorem handler_fixed_response:
  "statusCode (handler req res) = 200
 \<and> sent (handler req res) = Some (Obj [(''text'', Str ''Hello from Next.js API!'')])"
  by (simp add: handler_def json_def status_def)

text \<open>
  C10. The handler does not read its request: two requests that differ in method,
  headers, query or body give the same response.
\<close>

theorem handler_ignores_request:
  "handler req1 res = handler req2 res"
  by (simp add: handler_def)

end
